theory Spec2Isabelle
  imports Main "HOL-Library.Char_ord" "HOL-Library.List_Lexorder"
begin

section \<open>The generated code inventory of the spec builder\<close>

text \<open>
  The repository holds two generated JavaScript files, \<^verbatim>\<open>code-options.js\<close> and
  \<^verbatim>\<open>code-capabilities.js\<close>. Each declares one constant, an object literal that
  maps a category key to an array of records. They are the catalogs that the extractor
  \<^verbatim>\<open>extract_spec_options.py\<close> wrote from the decorated C\# sample modules. The
  extractor script itself is not among the sources. So the first part of the development
  is about the two committed catalogs and the sample modules, and the second part about a
  model of the extractor's steps that follows the words of the spec.
\<close>

subsection \<open>JavaScript literals\<close>

text \<open>
  An object literal keeps its properties in the order they are written, and a property
  may be left out, so an object is an association list. Only strings, arrays and
  objects occur in the two files.
\<close>

datatype jsval =
    JStr string
  | JArr "jsval list"
  | JObj "(string \<times> jsval) list"

definition js_fields :: "jsval \<Rightarrow> (string \<times> jsval) list" where
  "js_fields v = (case v of JObj kvs \<Rightarrow> kvs | _ \<Rightarrow> [])"

definition js_keys :: "jsval \<Rightarrow> string list" where
  "js_keys v = map fst (js_fields v)"

text \<open>Reading a property: \<open>None\<close> stands for JavaScript's \<^verbatim>\<open>undefined\<close>.\<close>

definition js_get :: "string \<Rightarrow> jsval \<Rightarrow> jsval option" where
  "js_get k v = map_of (js_fields v) k"

definition js_str :: "string \<Rightarrow> jsval \<Rightarrow> string option" where
  "js_str k v = (case js_get k v of Some (JStr s) \<Rightarrow> Some s | _ \<Rightarrow> None)"

definition js_elems :: "jsval \<Rightarrow> jsval list" where
  "js_elems v = (case v of JArr xs \<Rightarrow> xs | _ \<Rightarrow> [])"

subsection \<open>\<^verbatim>\<open>code-options.js\<close>\<close>

definition opt_trivial_commutation :: jsval where
  "opt_trivial_commutation =
     JObj
      [(''id'', JStr ''trivial_commutation''),
       (''name'', JStr ''Trivial Commutation''),
       (''description'', JStr ''Full commutation of small pots below the trivial commutation limit.''),
       (''whyItMatters'', JStr ''Allows members with very small benefits to take a one-off lump sum instead of a pension.''),
       (''codeClass'', JStr ''TrivialCommutation''),
       (''scheme'', JStr ''Core''),
       (''lastModified'', JStr ''2025-09-20'')]"

definition opt_gmp_equaliser :: jsval where
  "opt_gmp_equaliser =
     JObj
      [(''id'', JStr ''gmp_equaliser''),
       (''name'', JStr ''GMP Equalisation (Dual Record)''),
       (''description'', JStr ''Applies GMP equalisation using the dual-record method per Lloyds.''),
       (''whyItMatters'', JStr ''Required for schemes with members who have GMP service between 1990-1997.''),
       (''codeClass'', JStr ''GmpEqualiser''),
       (''scheme'', JStr ''Core''),
       (''lastModified'', JStr ''2025-12-01'')]"

definition opt_cpi_capped_revaluation :: jsval where
  "opt_cpi_capped_revaluation =
     JObj
      [(''id'', JStr ''cpi_capped_revaluation''),
       (''name'', JStr ''CPI-Capped (s101)''),
       (''description'', JStr ''Statutory revaluation capped at CPI rather than RPI.''),
       (''whyItMatters'', JStr ''The standard for post-97 deferred benefits under most modern schemes.''),
       (''codeClass'', JStr ''CpiCappedRevaluation''),
       (''scheme'', JStr ''Core''),
       (''lastModified'', JStr ''2025-11-15'')]"

definition opt_fixed_rate_revaluation :: jsval where
  "opt_fixed_rate_revaluation =
     JObj
      [(''id'', JStr ''fixed_rate_revaluation''),
       (''name'', JStr ''Fixed Rate''),
       (''description'', JStr ''Revaluation at a fixed annual rate specified in scheme rules.''),
       (''codeClass'', JStr ''FixedRateRevaluation''),
       (''scheme'', JStr ''Core''),
       (''lastModified'', JStr ''2025-10-01'')]"

definition CODE_OPTIONS :: jsval where
  "CODE_OPTIONS =
     JObj
      [(''commutation'', JArr [opt_trivial_commutation]),
       (''gmp'', JArr [opt_gmp_equaliser]),
       (''revaluation'', JArr [opt_cpi_capped_revaluation, opt_fixed_rate_revaluation])]"

subsection \<open>\<^verbatim>\<open>code-capabilities.js\<close>\<close>

definition cap_check_anti_franking :: jsval where
  "cap_check_anti_franking =
     JObj
      [(''id'', JStr ''check_anti_franking''),
       (''name'', JStr ''Anti-Franking Check''),
       (''description'', JStr ''Checks whether excess pension above GMP is sufficient to cover GMP increases.''),
       (''whyItMatters'', JStr ''Prevents schemes from using GMP step-ups to reduce the total pension paid.''),
       (''methodName'', JStr ''CheckAntiFranking''),
       (''returnType'', JStr ''bool''),
       (''parameters'', JStr ''decimal totalPension, decimal gmpAmount, decimal gmpIncrease''),
       (''parentOption'', JObj [(''id'', JStr ''gmp_equaliser''), (''name'', JStr ''GMP Equalisation (Dual Record)'')]),
       (''codeClass'', JStr ''GmpEqualiser''),
       (''scheme'', JStr ''Core''),
       (''lastModified'', JStr ''2025-12-01'')]"

definition cap_apply_section148 :: jsval where
  "cap_apply_section148 =
     JObj
      [(''id'', JStr ''apply_section148''),
       (''name'', JStr ''Section 148 Revaluation''),
       (''description'', JStr ''Applies s148 orders to revalue GMP between leaving and GMP pension age.''),
       (''methodName'', JStr ''ApplySection148''),
       (''returnType'', JStr ''decimal''),
       (''parameters'', JStr ''decimal gmp, decimal revaluationFactor''),
       (''parentOption'', JObj [(''id'', JStr ''gmp_equaliser''), (''name'', JStr ''GMP Equalisation (Dual Record)'')]),
       (''codeClass'', JStr ''GmpEqualiser''),
       (''scheme'', JStr ''Core''),
       (''lastModified'', JStr ''2025-12-01'')]"

definition cap_calculate_pro_rata :: jsval where
  "cap_calculate_pro_rata =
     JObj
      [(''id'', JStr ''calculate_pro_rata''),
       (''name'', JStr ''Pro-rata CPI Revaluation''),
       (''description'', JStr ''Calculates CPI revaluation for a partial year period.''),
       (''whyItMatters'', JStr ''Needed when a member leaves mid-year.''),
       (''methodName'', JStr ''CalculateProRata''),
       (''returnType'', JStr ''decimal''),
       (''parameters'', JStr ''decimal pension, DateTime startDate, DateTime endDate, decimal partialFactor''),
       (''parentOption'', JObj [(''id'', JStr ''cpi_capped_revaluation''), (''name'', JStr ''CPI-Capped (s101)'')]),
       (''codeClass'', JStr ''CpiCappedRevaluation''),
       (''scheme'', JStr ''Core''),
       (''lastModified'', JStr ''2025-11-15'')]"

definition cap_calculate_partial_cetv :: jsval where
  "cap_calculate_partial_cetv =
     JObj
      [(''id'', JStr ''calculate_partial_cetv''),
       (''name'', JStr ''Partial CETV''),
       (''description'', JStr ''Calculates a partial cash equivalent transfer value.''),
       (''whyItMatters'', JStr ''Needed when a member transfers only part of their benefits.''),
       (''methodName'', JStr ''CalculatePartialCetv''),
       (''returnType'', JStr ''decimal''),
       (''parameters'', JStr ''decimal totalCetv, decimal proportion''),
       (''codeClass'', JStr ''TransferCalculator''),
       (''scheme'', JStr ''Core''),
       (''lastModified'', JStr ''2025-11-20'')]"

definition cap_calculate_club_transfer :: jsval where
  "cap_calculate_club_transfer =
     JObj
      [(''id'', JStr ''calculate_club_transfer''),
       (''name'', JStr ''Club Transfer Value''),
       (''description'', JStr ''Calculates transfer value under the Public Sector Transfer Club.''),
       (''methodName'', JStr ''CalculateClubTransfer''),
       (''returnType'', JStr ''decimal''),
       (''parameters'', JStr ''decimal pension, decimal clubFactor''),
       (''codeClass'', JStr ''TransferCalculator''),
       (''scheme'', JStr ''Core''),
       (''lastModified'', JStr ''2025-11-20'')]"

definition CODE_CAPABILITIES :: jsval where
  "CODE_CAPABILITIES =
     JObj
      [(''gmp'', JArr [cap_check_anti_franking, cap_apply_section148]),
       (''revaluation'', JArr [cap_calculate_pro_rata]),
       (''transfers'', JArr [cap_calculate_partial_cetv, cap_calculate_club_transfer])]"

subsection \<open>Reading a catalog\<close>

text \<open>All records of a catalog, category after category, each array in its order.\<close>

definition catalog_records :: "jsval \<Rightarrow> jsval list" where
  "catalog_records c = concat (map (\<lambda>(k, rs). js_elems rs) (js_fields c))"

text \<open>The records listed under one category key.\<close>

definition category_records :: "jsval \<Rightarrow> string \<Rightarrow> jsval list" where
  "category_records c k = (case js_get k c of Some rs \<Rightarrow> js_elems rs | None \<Rightarrow> [])"

text \<open>Two values carry the same string under a property, and both do carry one.\<close>

definition same_str :: "string \<Rightarrow> jsval \<Rightarrow> jsval \<Rightarrow> bool" where
  "same_str k a b = (case js_str k a of None \<Rightarrow> False | Some s \<Rightarrow> js_str k b = Some s)"

text \<open>The class names under which the options catalog lists a record.\<close>

definition option_classes :: "string option list" where
  "option_classes = map (js_str ''codeClass'') (catalog_records CODE_OPTIONS)"

section \<open>The decorated sample modules\<close>

text \<open>
  The C\# attribute classes \<^verbatim>\<open>SpecOptionAttribute\<close> and
  \<^verbatim>\<open>SpecCapabilityAttribute\<close> have the same four string properties; a property
  that an attribute use does not assign stays \<^verbatim>\<open>null\<close>, here \<open>None\<close>.
\<close>

record marker =
  Category :: "string option"
  Name :: "string option"
  Description :: "string option"
  WhyItMatters :: "string option"

text \<open>
  A method declaration of a sample class: its \<^verbatim>\<open>[SpecCapability]\<close> attribute if it
  has one, its return type, its name and the text between the parentheses of its
  parameter list.
\<close>

record method_decl =
  methodAttr :: "marker option"
  returnType :: string
  methodName :: string
  parameters :: string

record class_decl =
  classAttr :: "marker option"
  className :: string
  classMethods :: "method_decl list"

subsection \<open>\<^verbatim>\<open>CpiCappedRevaluation\<close>\<close>

definition SpecOption_CpiCappedRevaluation :: marker where
  "SpecOption_CpiCappedRevaluation =
     \<lparr>Category = Some ''Revaluation'',
      Name = Some ''CPI-Capped (s101)'',
      Description = Some ''Statutory revaluation capped at CPI rather than RPI.'',
      WhyItMatters = Some ''The standard for post-97 deferred benefits under most modern schemes.''\<rparr>"

definition SpecCapability_CalculateProRata :: marker where
  "SpecCapability_CalculateProRata =
     \<lparr>Category = Some ''Revaluation'',
      Name = Some ''Pro-rata CPI Revaluation'',
      Description = Some ''Calculates CPI revaluation for a partial year period.'',
      WhyItMatters = Some ''Needed when a member leaves mid-year.''\<rparr>"

definition CpiCappedRevaluation_CalculateProRata :: method_decl where
  "CpiCappedRevaluation_CalculateProRata =
     \<lparr>methodAttr = Some SpecCapability_CalculateProRata,
      returnType = ''decimal'',
      methodName = ''CalculateProRata'',
      parameters = ''decimal pension, DateTime startDate, DateTime endDate, decimal partialFactor''\<rparr>"

definition CpiCappedRevaluation_Calculate :: method_decl where
  "CpiCappedRevaluation_Calculate =
     \<lparr>methodAttr = None,
      returnType = ''decimal'',
      methodName = ''Calculate'',
      parameters = ''decimal pension, DateTime startDate, DateTime endDate''\<rparr>"

definition CpiCappedRevaluation :: class_decl where
  "CpiCappedRevaluation =
     \<lparr>classAttr = Some SpecOption_CpiCappedRevaluation,
      className = ''CpiCappedRevaluation'',
      classMethods = [CpiCappedRevaluation_CalculateProRata, CpiCappedRevaluation_Calculate]\<rparr>"

subsection \<open>\<^verbatim>\<open>FixedRateRevaluation\<close>\<close>

definition SpecOption_FixedRateRevaluation :: marker where
  "SpecOption_FixedRateRevaluation =
     \<lparr>Category = Some ''Revaluation'',
      Name = Some ''Fixed Rate'',
      Description = Some ''Revaluation at a fixed annual rate specified in scheme rules.'',
      WhyItMatters = None\<rparr>"

definition FixedRateRevaluation_Calculate :: method_decl where
  "FixedRateRevaluation_Calculate =
     \<lparr>methodAttr = None,
      returnType = ''decimal'',
      methodName = ''Calculate'',
      parameters = ''decimal pension, DateTime startDate, DateTime endDate''\<rparr>"

definition FixedRateRevaluation :: class_decl where
  "FixedRateRevaluation =
     \<lparr>classAttr = Some SpecOption_FixedRateRevaluation,
      className = ''FixedRateRevaluation'',
      classMethods = [FixedRateRevaluation_Calculate]\<rparr>"

subsection \<open>\<^verbatim>\<open>GmpEqualiser\<close>\<close>

definition SpecOption_GmpEqualiser :: marker where
  "SpecOption_GmpEqualiser =
     \<lparr>Category = Some ''GMP'',
      Name = Some ''GMP Equalisation (Dual Record)'',
      Description = Some ''Applies GMP equalisation using the dual-record method per Lloyds.'',
      WhyItMatters = Some ''Required for schemes with members who have GMP service between 1990-1997.''\<rparr>"

definition SpecCapability_CheckAntiFranking :: marker where
  "SpecCapability_CheckAntiFranking =
     \<lparr>Category = Some ''GMP'',
      Name = Some ''Anti-Franking Check'',
      Description = Some ''Checks whether excess pension above GMP is sufficient to cover GMP increases.'',
      WhyItMatters = Some ''Prevents schemes from using GMP step-ups to reduce the total pension paid.''\<rparr>"

definition GmpEqualiser_CheckAntiFranking :: method_decl where
  "GmpEqualiser_CheckAntiFranking =
     \<lparr>methodAttr = Some SpecCapability_CheckAntiFranking,
      returnType = ''bool'',
      methodName = ''CheckAntiFranking'',
      parameters = ''decimal totalPension, decimal gmpAmount, decimal gmpIncrease''\<rparr>"

definition SpecCapability_ApplySection148 :: marker where
  "SpecCapability_ApplySection148 =
     \<lparr>Category = Some ''GMP'',
      Name = Some ''Section 148 Revaluation'',
      Description = Some ''Applies s148 orders to revalue GMP between leaving and GMP pension age.'',
      WhyItMatters = None\<rparr>"

definition GmpEqualiser_ApplySection148 :: method_decl where
  "GmpEqualiser_ApplySection148 =
     \<lparr>methodAttr = Some SpecCapability_ApplySection148,
      returnType = ''decimal'',
      methodName = ''ApplySection148'',
      parameters = ''decimal gmp, decimal revaluationFactor''\<rparr>"

definition GmpEqualiser_Equalise :: method_decl where
  "GmpEqualiser_Equalise =
     \<lparr>methodAttr = None,
      returnType = ''decimal'',
      methodName = ''Equalise'',
      parameters = ''decimal malePension, decimal femalePension''\<rparr>"

definition GmpEqualiser :: class_decl where
  "GmpEqualiser =
     \<lparr>classAttr = Some SpecOption_GmpEqualiser,
      className = ''GmpEqualiser'',
      classMethods = [GmpEqualiser_CheckAntiFranking, GmpEqualiser_ApplySection148, GmpEqualiser_Equalise]\<rparr>"

subsection \<open>\<^verbatim>\<open>InternalHelper\<close>\<close>

definition InternalHelper_FormatDate :: method_decl where
  "InternalHelper_FormatDate =
     \<lparr>methodAttr = None,
      returnType = ''string'',
      methodName = ''FormatDate'',
      parameters = ''DateTime d''\<rparr>"

definition InternalHelper :: class_decl where
  "InternalHelper =
     \<lparr>classAttr = None,
      className = ''InternalHelper'',
      classMethods = [InternalHelper_FormatDate]\<rparr>"

subsection \<open>\<^verbatim>\<open>TransferCalculator\<close>\<close>

definition SpecCapability_CalculatePartialCetv :: marker where
  "SpecCapability_CalculatePartialCetv =
     \<lparr>Category = Some ''Transfers'',
      Name = Some ''Partial CETV'',
      Description = Some ''Calculates a partial cash equivalent transfer value.'',
      WhyItMatters = Some ''Needed when a member transfers only part of their benefits.''\<rparr>"

definition TransferCalculator_CalculatePartialCetv :: method_decl where
  "TransferCalculator_CalculatePartialCetv =
     \<lparr>methodAttr = Some SpecCapability_CalculatePartialCetv,
      returnType = ''decimal'',
      methodName = ''CalculatePartialCetv'',
      parameters = ''decimal totalCetv, decimal proportion''\<rparr>"

definition SpecCapability_CalculateClubTransfer :: marker where
  "SpecCapability_CalculateClubTransfer =
     \<lparr>Category = Some ''Transfers'',
      Name = Some ''Club Transfer Value'',
      Description = Some ''Calculates transfer value under the Public Sector Transfer Club.'',
      WhyItMatters = None\<rparr>"

definition TransferCalculator_CalculateClubTransfer :: method_decl where
  "TransferCalculator_CalculateClubTransfer =
     \<lparr>methodAttr = Some SpecCapability_CalculateClubTransfer,
      returnType = ''decimal'',
      methodName = ''CalculateClubTransfer'',
      parameters = ''decimal pension, decimal clubFactor''\<rparr>"

definition TransferCalculator :: class_decl where
  "TransferCalculator =
     \<lparr>classAttr = None,
      className = ''TransferCalculator'',
      classMethods = [TransferCalculator_CalculatePartialCetv, TransferCalculator_CalculateClubTransfer]\<rparr>"

subsection \<open>\<^verbatim>\<open>TrivialCommutation\<close>\<close>

definition SpecOption_TrivialCommutation :: marker where
  "SpecOption_TrivialCommutation =
     \<lparr>Category = Some ''Commutation'',
      Name = Some ''Trivial Commutation'',
      Description = Some ''Full commutation of small pots below the trivial commutation limit.'',
      WhyItMatters = Some ''Allows members with very small benefits to take a one-off lump sum instead of a pension.''\<rparr>"

definition TrivialCommutation_Commute :: method_decl where
  "TrivialCommutation_Commute =
     \<lparr>methodAttr = None,
      returnType = ''decimal'',
      methodName = ''Commute'',
      parameters = ''decimal pension, decimal factor''\<rparr>"

definition TrivialCommutation :: class_decl where
  "TrivialCommutation =
     \<lparr>classAttr = Some SpecOption_TrivialCommutation,
      className = ''TrivialCommutation'',
      classMethods = [TrivialCommutation_Commute]\<rparr>"

subsection \<open>The corpus\<close>

text \<open>
  The six classes that the sample modules declare. The order of the list has no meaning:
  the sources do not tell in which order the extractor read the modules, and nothing
  below depends on it.
\<close>

definition sample_modules :: "class_decl list" where
  "sample_modules =
     [CpiCappedRevaluation, FixedRateRevaluation, GmpEqualiser, InternalHelper,
      TransferCalculator, TrivialCommutation]"

text \<open>
  The process document marks \<^verbatim>\<open>Category\<close> and \<^verbatim>\<open>Name\<close> as required and the other
  two arguments as optional.
\<close>

definition eligible :: "marker \<Rightarrow> bool" where
  "eligible m = (Category m \<noteq> None \<and> Name m \<noteq> None)"

definition class_eligible :: "class_decl \<Rightarrow> bool" where
  "class_eligible c = (case classAttr c of Some m \<Rightarrow> eligible m | None \<Rightarrow> False)"

section \<open>Letter case and category keys\<close>

text \<open>ASCII letter case, as the names and categories of the sample modules need it.\<close>

definition upper_letters :: string where
  "upper_letters = ''ABCDEFGHIJKLMNOPQRSTUVWXYZ''"

definition lower_letters :: string where
  "lower_letters = ''abcdefghijklmnopqrstuvwxyz''"

definition digits :: string where
  "digits = ''0123456789''"

definition is_digit :: "char \<Rightarrow> bool" where
  "is_digit c = (c \<in> set digits)"

definition is_alnum :: "char \<Rightarrow> bool" where
  "is_alnum c = (c \<in> set (lower_letters @ upper_letters @ digits))"

definition lower_char :: "char \<Rightarrow> char" where
  "lower_char c = (case map_of (zip upper_letters lower_letters) c of Some d \<Rightarrow> d | None \<Rightarrow> c)"

definition lower :: "string \<Rightarrow> string" where
  "lower s = map lower_char s"

text \<open>The category of a marker in lower case, the form of the keys of the catalogs.\<close>

definition marker_category :: "marker \<Rightarrow> string" where
  "marker_category m = (case Category m of Some c \<Rightarrow> lower c | None \<Rightarrow> [])"

text \<open>An identifier without its underscores.\<close>

definition drop_underscores :: "string \<Rightarrow> string" where
  "drop_underscores s = filter (\<lambda>c. c \<noteq> CHR ''_'') s"

section \<open>The slug of the spec\<close>

text \<open>
  Two helpers of the slug below. \<open>collapse_runs\<close> replaces each maximal run of
  characters that are neither letters nor digits by one underscore; its flag says that the
  previous character was part of such a run. \<open>trim_underscores\<close> drops the underscores
  at both ends.
\<close>

fun collapse_runs :: "bool \<Rightarrow> string \<Rightarrow> string" where
  "collapse_runs in_run [] = []"
| "collapse_runs in_run (c # cs) =
     (if is_alnum c then c # collapse_runs False cs
      else if in_run then collapse_runs True cs
      else CHR ''_'' # collapse_runs True cs)"

definition trim_underscores :: "string \<Rightarrow> string" where
  "trim_underscores s =
     rev (dropWhile (\<lambda>c. c = CHR ''_'') (rev (dropWhile (\<lambda>c. c = CHR ''_'') s)))"

text \<open>
  Modelled from the spec: the slug generation of the extractor script
  \<^verbatim>\<open>extract_spec_options.py\<close>, which is missing from the sources. The spec's words are
  \<^verbatim>\<open>lowercase, non-alphanumeric runs replaced by single underscores, leading/trailing
  underscores trimmed\<close>.
\<close>

definition slug :: "string \<Rightarrow> string" where
  "slug s = trim_underscores (collapse_runs False (lower s))"

section \<open>Dates\<close>

text \<open>A calendar date as the catalogs write it: \<^verbatim>\<open>YYYY-MM-DD\<close>.\<close>

definition is_date :: "string \<Rightarrow> bool" where
  "is_date s =
     (length s = 10 \<and>
      list_all is_digit [s ! 0, s ! 1, s ! 2, s ! 3, s ! 5, s ! 6, s ! 8, s ! 9] \<and>
      s ! 4 = CHR ''-'' \<and> s ! 7 = CHR ''-'')"

text \<open>
  Modelled from the spec: the timestamp truncation of the missing extractor script. The
  spec's words are \<^verbatim>\<open>the timestamp likewise truncated to date\<close>; the date is the
  first ten characters of an ISO timestamp.
\<close>

definition truncate_to_date :: "string \<Rightarrow> string" where
  "truncate_to_date ts = take 10 ts"

text \<open>
  The record that the process document gives as the format of the structured (JSON)
  input, with its \<^verbatim>\<open>code\<close> string as the document abbreviates it.
\<close>

definition json_input_example :: jsval where
  "json_input_example =
     JObj
      [(''moduleName'', JStr ''GmpEqualiser''),
       (''scheme'', JStr ''Core''),
       (''code'', JStr ''using System;\<newline>...[SpecOption(...)]...''),
       (''lastModified'', JStr ''2025-12-01T16:45:00'')]"

definition all_records :: "jsval list" where
  "all_records = catalog_records CODE_OPTIONS @ catalog_records CODE_CAPABILITIES"

section \<open>A model of the extractor\<close>

text \<open>
  The steps of \<^verbatim>\<open>extract_spec_options.py\<close> that build the entities and group them
  are written here from the spec, since the script is missing from the sources. The input
  of the model is what the spec's Declaration Binder hands on: per source file its scheme
  and timestamp (Scheme/Timestamp Resolver) and its classes with their markers and
  methods.
\<close>

record source_file =
  file_scheme :: string
  file_modified :: string
  file_classes :: "class_decl list"

text \<open>The entities of the spec's data model. A parent reference is the pair (id, name).\<close>

record option_entity =
  option_id :: string
  option_name :: string
  option_description :: "string option"
  option_whyItMatters :: "string option"
  option_codeClass :: string
  option_scheme :: string
  option_lastModified :: string
  option_category :: string

record capability_entity =
  capability_id :: string
  capability_name :: string
  capability_description :: "string option"
  capability_whyItMatters :: "string option"
  capability_methodName :: string
  capability_returnType :: string
  capability_parameters :: string
  capability_parentOption :: "(string \<times> string) option"
  capability_codeClass :: string
  capability_scheme :: string
  capability_lastModified :: string
  capability_category :: string

text \<open>
  Modelled from the spec: the Entity Builder of the missing extractor script, for a class.
  The spec's words are \<^verbatim>\<open>a class declaration is eligible to become an Option iff it
  carries a class-targeted marker with both category and name present\<close>. The function
  \<open>ident\<close> that makes the id from the declared name and the display name is a parameter;
  the spec's choice is \<open>\<lambda>declared name. slug name\<close>.
\<close>

definition build_option ::
  "(string \<Rightarrow> string \<Rightarrow> string) \<Rightarrow> source_file \<Rightarrow> class_decl \<Rightarrow> option_entity option" where
  "build_option ident src c =
     (case classAttr c of
        None \<Rightarrow> None
      | Some m \<Rightarrow>
          (case Category m of
             None \<Rightarrow> None
           | Some category \<Rightarrow>
               (case Name m of
                  None \<Rightarrow> None
                | Some name \<Rightarrow>
                    Some \<lparr>option_id = ident (className c) name,
                          option_name = name,
                          option_description = Description m,
                          option_whyItMatters = WhyItMatters m,
                          option_codeClass = className c,
                          option_scheme = file_scheme src,
                          option_lastModified = truncate_to_date (file_modified src),
                          option_category = category\<rparr>)))"

text \<open>
  Modelled from the spec: the Entity Builder of the missing extractor script, for a
  method. The spec's words are \<^verbatim>\<open>a method is eligible to become a Capability iff it
  carries a method-targeted marker with both fields present, regardless of whether its
  enclosing class is itself decorated\<close> and \<^verbatim>\<open>parentOption is set iff the capability's
  enclosing class also produced an Option\<close>.
\<close>

definition build_capability ::
  "(string \<Rightarrow> string \<Rightarrow> string) \<Rightarrow> source_file \<Rightarrow> class_decl \<Rightarrow> method_decl \<Rightarrow>
     capability_entity option" where
  "build_capability ident src c f =
     (case methodAttr f of
        None \<Rightarrow> None
      | Some m \<Rightarrow>
          (case Category m of
             None \<Rightarrow> None
           | Some category \<Rightarrow>
               (case Name m of
                  None \<Rightarrow> None
                | Some name \<Rightarrow>
                    Some \<lparr>capability_id = ident (methodName f) name,
                          capability_name = name,
                          capability_description = Description m,
                          capability_whyItMatters = WhyItMatters m,
                          capability_methodName = methodName f,
                          capability_returnType = returnType f,
                          capability_parameters = parameters f,
                          capability_parentOption =
                            map_option (\<lambda>opt. (option_id opt, option_name opt))
                              (build_option ident src c),
                          capability_codeClass = className c,
                          capability_scheme = file_scheme src,
                          capability_lastModified = truncate_to_date (file_modified src),
                          capability_category = category\<rparr>)))"

text \<open>
  Modelled from the spec: one pass of the missing extractor script over the files, file
  after file, class after class and method after method; a declaration without an
  eligible marker contributes nothing.
\<close>

definition extract_options ::
  "(string \<Rightarrow> string \<Rightarrow> string) \<Rightarrow> source_file list \<Rightarrow> option_entity list" where
  "extract_options ident files =
     concat (map (\<lambda>src. List.map_filter (build_option ident src) (file_classes src)) files)"

definition extract_capabilities ::
  "(string \<Rightarrow> string \<Rightarrow> string) \<Rightarrow> source_file list \<Rightarrow> capability_entity list" where
  "extract_capabilities ident files =
     concat (map (\<lambda>src.
       concat (map (\<lambda>c. List.map_filter (build_capability ident src c) (classMethods c))
         (file_classes src))) files)"

text \<open>
  Modelled from the spec: the Category Aggregator of the missing extractor script. The
  spec's words are \<^verbatim>\<open>groups by the marker's category field, producing a mapping
  ordered alphabetically by category key; within a category, entities retain file-scan
  order\<close>, and the keys are lower-case. \<open>add_entity\<close> appends an entity to the list
  under its key, with a new key going to the end; \<open>group_by_category\<close> does so for the
  entities one after the other; \<open>aggregate\<close> then orders the keys.
\<close>

fun add_entity :: "string \<Rightarrow> 'a \<Rightarrow> (string \<times> 'a list) list \<Rightarrow> (string \<times> 'a list) list" where
  "add_entity k e [] = [(k, [e])]"
| "add_entity k e ((k', es) # rest) =
     (if k' = k then (k', es @ [e]) # rest else (k', es) # add_entity k e rest)"

definition group_by_category :: "('a \<Rightarrow> string) \<Rightarrow> 'a list \<Rightarrow> (string \<times> 'a list) list" where
  "group_by_category category es = foldl (\<lambda>acc e. add_entity (lower (category e)) e acc) [] es"

definition aggregate :: "('a \<Rightarrow> string) \<Rightarrow> 'a list \<Rightarrow> (string \<times> 'a list) list" where
  "aggregate category es = sort_key fst (group_by_category category es)"

subsection \<open>Two input files\<close>

text \<open>
  The process document gives one record of the structured input: module
  \<^verbatim>\<open>GmpEqualiser\<close>, scheme \<^verbatim>\<open>Core\<close>, timestamp \<^verbatim>\<open>2025-12-01T16:45:00\<close>. The
  timestamp of \<^verbatim>\<open>TransferCalculator\<close> is not in the sources; the date of its records
  in the catalog stands for it.
\<close>

definition gmp_module :: source_file where
  "gmp_module =
     \<lparr>file_scheme = ''Core'',
      file_modified = ''2025-12-01T16:45:00'',
      file_classes = [GmpEqualiser]\<rparr>"

definition transfer_module :: source_file where
  "transfer_module =
     \<lparr>file_scheme = ''Core'',
      file_modified = ''2025-11-20'',
      file_classes = [TransferCalculator]\<rparr>"

section \<open>Evaluating the catalogs\<close>

lemmas rec_defs = opt_trivial_commutation_def opt_gmp_equaliser_def opt_cpi_capped_revaluation_def
  opt_fixed_rate_revaluation_def cap_check_anti_franking_def cap_apply_section148_def
  cap_calculate_pro_rata_def cap_calculate_partial_cetv_def cap_calculate_club_transfer_def

lemmas js_defs = js_fields_def js_keys_def js_get_def js_str_def js_elems_def

lemmas char_defs = is_digit_def is_alnum_def lower_char_def lower_def
  upper_letters_def lower_letters_def digits_def

lemma options_records:
  "catalog_records CODE_OPTIONS =
     [opt_trivial_commutation, opt_gmp_equaliser, opt_cpi_capped_revaluation,
      opt_fixed_rate_revaluation]"
  by (simp add: catalog_records_def CODE_OPTIONS_def js_fields_def js_elems_def)

lemma capabilities_records:
  "catalog_records CODE_CAPABILITIES =
     [cap_check_anti_franking, cap_apply_section148, cap_calculate_pro_rata,
      cap_calculate_partial_cetv, cap_calculate_club_transfer]"
  by (simp add: catalog_records_def CODE_CAPABILITIES_def js_fields_def js_elems_def)

lemma capability_cases:
  assumes "cap \<in> set (catalog_records CODE_CAPABILITIES)"
  obtains "cap = cap_check_anti_franking" | "cap = cap_apply_section148"
    | "cap = cap_calculate_pro_rata" | "cap = cap_calculate_partial_cetv"
    | "cap = cap_calculate_club_transfer"
  using assms by (auto simp: capabilities_records)

lemma options_by_category:
  "category_records CODE_OPTIONS ''commutation'' = [opt_trivial_commutation]"
  "category_records CODE_OPTIONS ''gmp'' = [opt_gmp_equaliser]"
  "category_records CODE_OPTIONS ''revaluation'' =
     [opt_cpi_capped_revaluation, opt_fixed_rate_revaluation]"
  by (simp_all add: category_records_def CODE_OPTIONS_def js_defs)

lemma capabilities_by_category:
  "category_records CODE_CAPABILITIES ''gmp'' = [cap_check_anti_franking, cap_apply_section148]"
  "category_records CODE_CAPABILITIES ''revaluation'' = [cap_calculate_pro_rata]"
  "category_records CODE_CAPABILITIES ''transfers'' =
     [cap_calculate_partial_cetv, cap_calculate_club_transfer]"
  by (simp_all add: category_records_def CODE_CAPABILITIES_def js_defs)

lemma option_facts:
  "js_str ''codeClass'' opt_trivial_commutation = Some ''TrivialCommutation''"
  "js_str ''codeClass'' opt_gmp_equaliser = Some ''GmpEqualiser''"
  "js_str ''codeClass'' opt_cpi_capped_revaluation = Some ''CpiCappedRevaluation''"
  "js_str ''codeClass'' opt_fixed_rate_revaluation = Some ''FixedRateRevaluation''"
  "js_str ''name'' opt_trivial_commutation = Some ''Trivial Commutation''"
  "js_str ''name'' opt_gmp_equaliser = Some ''GMP Equalisation (Dual Record)''"
  "js_str ''name'' opt_cpi_capped_revaluation = Some ''CPI-Capped (s101)''"
  "js_str ''name'' opt_fixed_rate_revaluation = Some ''Fixed Rate''"
  "js_str ''id'' opt_trivial_commutation = Some ''trivial_commutation''"
  "js_str ''id'' opt_gmp_equaliser = Some ''gmp_equaliser''"
  "js_str ''id'' opt_cpi_capped_revaluation = Some ''cpi_capped_revaluation''"
  "js_str ''id'' opt_fixed_rate_revaluation = Some ''fixed_rate_revaluation''"
  by (simp_all add: rec_defs js_defs)

lemma option_classes_eq:
  "option_classes = [Some ''TrivialCommutation'', Some ''GmpEqualiser'',
     Some ''CpiCappedRevaluation'', Some ''FixedRateRevaluation'']"
  by (simp add: option_classes_def options_records option_facts)

lemma capability_classes:
  "js_str ''codeClass'' cap_check_anti_franking = Some ''GmpEqualiser''"
  "js_str ''codeClass'' cap_apply_section148 = Some ''GmpEqualiser''"
  "js_str ''codeClass'' cap_calculate_pro_rata = Some ''CpiCappedRevaluation''"
  "js_str ''codeClass'' cap_calculate_partial_cetv = Some ''TransferCalculator''"
  "js_str ''codeClass'' cap_calculate_club_transfer = Some ''TransferCalculator''"
  by (simp_all add: rec_defs js_defs)

lemma capability_methods:
  "js_str ''methodName'' cap_check_anti_franking = Some ''CheckAntiFranking''"
  "js_str ''methodName'' cap_apply_section148 = Some ''ApplySection148''"
  "js_str ''methodName'' cap_calculate_pro_rata = Some ''CalculateProRata''"
  "js_str ''methodName'' cap_calculate_partial_cetv = Some ''CalculatePartialCetv''"
  "js_str ''methodName'' cap_calculate_club_transfer = Some ''CalculateClubTransfer''"
  by (simp_all add: rec_defs js_defs)


lemma last_modified:
  "js_str ''lastModified'' opt_trivial_commutation = Some ''2025-09-20''"
  "js_str ''lastModified'' opt_gmp_equaliser = Some ''2025-12-01''"
  "js_str ''lastModified'' opt_cpi_capped_revaluation = Some ''2025-11-15''"
  "js_str ''lastModified'' opt_fixed_rate_revaluation = Some ''2025-10-01''"
  "js_str ''lastModified'' cap_check_anti_franking = Some ''2025-12-01''"
  "js_str ''lastModified'' cap_apply_section148 = Some ''2025-12-01''"
  "js_str ''lastModified'' cap_calculate_pro_rata = Some ''2025-11-15''"
  "js_str ''lastModified'' cap_calculate_partial_cetv = Some ''2025-11-20''"
  "js_str ''lastModified'' cap_calculate_club_transfer = Some ''2025-11-20''"
  by (simp_all add: rec_defs js_defs)

lemma option_keys:
  "js_keys opt_trivial_commutation =
     [''id'', ''name'', ''description'', ''whyItMatters'', ''codeClass'', ''scheme'',
      ''lastModified'']"
  "js_keys opt_gmp_equaliser =
     [''id'', ''name'', ''description'', ''whyItMatters'', ''codeClass'', ''scheme'',
      ''lastModified'']"
  "js_keys opt_cpi_capped_revaluation =
     [''id'', ''name'', ''description'', ''whyItMatters'', ''codeClass'', ''scheme'',
      ''lastModified'']"
  "js_keys opt_fixed_rate_revaluation =
     [''id'', ''name'', ''description'', ''codeClass'', ''scheme'', ''lastModified'']"
  by (simp_all add: rec_defs js_defs)

lemma capability_keys:
  "js_keys cap_check_anti_franking =
     [''id'', ''name'', ''description'', ''whyItMatters'', ''methodName'', ''returnType'',
      ''parameters'', ''parentOption'', ''codeClass'', ''scheme'', ''lastModified'']"
  "js_keys cap_apply_section148 =
     [''id'', ''name'', ''description'', ''methodName'', ''returnType'',
      ''parameters'', ''parentOption'', ''codeClass'', ''scheme'', ''lastModified'']"
  "js_keys cap_calculate_pro_rata =
     [''id'', ''name'', ''description'', ''whyItMatters'', ''methodName'', ''returnType'',
      ''parameters'', ''parentOption'', ''codeClass'', ''scheme'', ''lastModified'']"
  "js_keys cap_calculate_partial_cetv =
     [''id'', ''name'', ''description'', ''whyItMatters'', ''methodName'', ''returnType'',
      ''parameters'', ''codeClass'', ''scheme'', ''lastModified'']"
  "js_keys cap_calculate_club_transfer =
     [''id'', ''name'', ''description'', ''methodName'', ''returnType'',
      ''parameters'', ''codeClass'', ''scheme'', ''lastModified'']"
  by (simp_all add: rec_defs js_defs)

lemma no_key: "(js_get k v = None) = (k \<notin> set (js_keys v))"
  by (simp add: js_get_def js_keys_def map_of_eq_None_iff)

section \<open>Evaluating the sample modules\<close>

lemmas class_defs = CpiCappedRevaluation_def FixedRateRevaluation_def GmpEqualiser_def
  InternalHelper_def TransferCalculator_def TrivialCommutation_def

lemmas method_defs = CpiCappedRevaluation_CalculateProRata_def CpiCappedRevaluation_Calculate_def
  FixedRateRevaluation_Calculate_def GmpEqualiser_CheckAntiFranking_def
  GmpEqualiser_ApplySection148_def GmpEqualiser_Equalise_def
  InternalHelper_FormatDate_def TransferCalculator_CalculatePartialCetv_def
  TransferCalculator_CalculateClubTransfer_def TrivialCommutation_Commute_def

lemmas marker_defs = SpecOption_CpiCappedRevaluation_def SpecCapability_CalculateProRata_def
  SpecOption_FixedRateRevaluation_def SpecOption_GmpEqualiser_def
  SpecCapability_CheckAntiFranking_def SpecCapability_ApplySection148_def
  SpecCapability_CalculatePartialCetv_def SpecCapability_CalculateClubTransfer_def
  SpecOption_TrivialCommutation_def

lemma class_facts:
  "classAttr CpiCappedRevaluation = Some SpecOption_CpiCappedRevaluation"
  "className CpiCappedRevaluation = ''CpiCappedRevaluation''"
  "classMethods CpiCappedRevaluation = [CpiCappedRevaluation_CalculateProRata, CpiCappedRevaluation_Calculate]"
  "classAttr FixedRateRevaluation = Some SpecOption_FixedRateRevaluation"
  "className FixedRateRevaluation = ''FixedRateRevaluation''"
  "classMethods FixedRateRevaluation = [FixedRateRevaluation_Calculate]"
  "classAttr GmpEqualiser = Some SpecOption_GmpEqualiser"
  "className GmpEqualiser = ''GmpEqualiser''"
  "classMethods GmpEqualiser = [GmpEqualiser_CheckAntiFranking, GmpEqualiser_ApplySection148, GmpEqualiser_Equalise]"
  "classAttr InternalHelper = None"
  "className InternalHelper = ''InternalHelper''"
  "classMethods InternalHelper = [InternalHelper_FormatDate]"
  "classAttr TransferCalculator = None"
  "className TransferCalculator = ''TransferCalculator''"
  "classMethods TransferCalculator = [TransferCalculator_CalculatePartialCetv, TransferCalculator_CalculateClubTransfer]"
  "classAttr TrivialCommutation = Some SpecOption_TrivialCommutation"
  "className TrivialCommutation = ''TrivialCommutation''"
  "classMethods TrivialCommutation = [TrivialCommutation_Commute]"
  by (simp_all add: class_defs)

lemma method_facts:
  "methodAttr CpiCappedRevaluation_CalculateProRata = Some SpecCapability_CalculateProRata"
  "methodName CpiCappedRevaluation_CalculateProRata = ''CalculateProRata''"
  "methodAttr CpiCappedRevaluation_Calculate = None"
  "methodName CpiCappedRevaluation_Calculate = ''Calculate''"
  "methodAttr FixedRateRevaluation_Calculate = None"
  "methodName FixedRateRevaluation_Calculate = ''Calculate''"
  "methodAttr GmpEqualiser_CheckAntiFranking = Some SpecCapability_CheckAntiFranking"
  "methodName GmpEqualiser_CheckAntiFranking = ''CheckAntiFranking''"
  "methodAttr GmpEqualiser_ApplySection148 = Some SpecCapability_ApplySection148"
  "methodName GmpEqualiser_ApplySection148 = ''ApplySection148''"
  "methodAttr GmpEqualiser_Equalise = None"
  "methodName GmpEqualiser_Equalise = ''Equalise''"
  "methodAttr InternalHelper_FormatDate = None"
  "methodName InternalHelper_FormatDate = ''FormatDate''"
  "methodAttr TransferCalculator_CalculatePartialCetv = Some SpecCapability_CalculatePartialCetv"
  "methodName TransferCalculator_CalculatePartialCetv = ''CalculatePartialCetv''"
  "methodAttr TransferCalculator_CalculateClubTransfer = Some SpecCapability_CalculateClubTransfer"
  "methodName TransferCalculator_CalculateClubTransfer = ''CalculateClubTransfer''"
  "methodAttr TrivialCommutation_Commute = None"
  "methodName TrivialCommutation_Commute = ''Commute''"
  by (simp_all add: method_defs)

lemma marker_eligible:
  "eligible SpecOption_CpiCappedRevaluation"
  "eligible SpecCapability_CalculateProRata"
  "eligible SpecOption_FixedRateRevaluation"
  "eligible SpecOption_GmpEqualiser"
  "eligible SpecCapability_CheckAntiFranking"
  "eligible SpecCapability_ApplySection148"
  "eligible SpecCapability_CalculatePartialCetv"
  "eligible SpecCapability_CalculateClubTransfer"
  "eligible SpecOption_TrivialCommutation"
  by (simp_all add: eligible_def marker_defs)

lemma marker_categories:
  "marker_category SpecOption_CpiCappedRevaluation = ''revaluation''"
  "marker_category SpecCapability_CalculateProRata = ''revaluation''"
  "marker_category SpecOption_FixedRateRevaluation = ''revaluation''"
  "marker_category SpecOption_GmpEqualiser = ''gmp''"
  "marker_category SpecCapability_CheckAntiFranking = ''gmp''"
  "marker_category SpecCapability_ApplySection148 = ''gmp''"
  "marker_category SpecCapability_CalculatePartialCetv = ''transfers''"
  "marker_category SpecCapability_CalculateClubTransfer = ''transfers''"
  "marker_category SpecOption_TrivialCommutation = ''commutation''"
  by (simp_all add: marker_category_def marker_defs char_defs)

lemma marker_names:
  "Name SpecOption_CpiCappedRevaluation = Some ''CPI-Capped (s101)''"
  "Name SpecCapability_CalculateProRata = Some ''Pro-rata CPI Revaluation''"
  "Name SpecOption_FixedRateRevaluation = Some ''Fixed Rate''"
  "Name SpecOption_GmpEqualiser = Some ''GMP Equalisation (Dual Record)''"
  "Name SpecCapability_CheckAntiFranking = Some ''Anti-Franking Check''"
  "Name SpecCapability_ApplySection148 = Some ''Section 148 Revaluation''"
  "Name SpecCapability_CalculatePartialCetv = Some ''Partial CETV''"
  "Name SpecCapability_CalculateClubTransfer = Some ''Club Transfer Value''"
  "Name SpecOption_TrivialCommutation = Some ''Trivial Commutation''"
  by (simp_all add: marker_defs)

lemma class_eligible_eval:
  "class_eligible CpiCappedRevaluation" "class_eligible FixedRateRevaluation"
  "class_eligible GmpEqualiser" "\<not> class_eligible InternalHelper"
  "\<not> class_eligible TransferCalculator" "class_eligible TrivialCommutation"
  by (simp_all add: class_eligible_def class_facts marker_eligible)

lemma sample_class_cases:
  assumes "c \<in> set sample_modules"
  obtains "c = CpiCappedRevaluation" | "c = FixedRateRevaluation" | "c = GmpEqualiser"
    | "c = InternalHelper" | "c = TransferCalculator" | "c = TrivialCommutation"
  using assms by (auto simp: sample_modules_def)


lemma slug_gmp_rule:
  "slug ''GMP Rule'' = ''gmp_rule''" "slug ''GMP-Rule!'' = ''gmp_rule''"
  by (simp_all add: slug_def trim_underscores_def char_defs)

lemma json_input_example_eval:
  "js_str ''moduleName'' json_input_example = Some ''GmpEqualiser''"
  "js_str ''lastModified'' json_input_example = Some ''2025-12-01T16:45:00''"
  by (simp_all add: json_input_example_def js_defs)

lemma dates_eval:
  "is_date ''2025-09-20''" "is_date ''2025-12-01''" "is_date ''2025-11-15''"
  "is_date ''2025-10-01''" "is_date ''2025-11-20''"
  by (simp_all add: is_date_def is_digit_def digits_def)

lemma truncate_date_prefix: "is_date d \<Longrightarrow> truncate_to_date (d @ t) = d"
  by (simp add: is_date_def truncate_to_date_def)

lemma drop_underscores_ids:
  "drop_underscores ''trivial_commutation'' = lower ''TrivialCommutation''"
  "drop_underscores ''gmp_equaliser'' = lower ''GmpEqualiser''"
  "drop_underscores ''cpi_capped_revaluation'' = lower ''CpiCappedRevaluation''"
  "drop_underscores ''fixed_rate_revaluation'' = lower ''FixedRateRevaluation''"
  "drop_underscores ''check_anti_franking'' = lower ''CheckAntiFranking''"
  "drop_underscores ''apply_section148'' = lower ''ApplySection148''"
  "drop_underscores ''calculate_pro_rata'' = lower ''CalculateProRata''"
  "drop_underscores ''calculate_partial_cetv'' = lower ''CalculatePartialCetv''"
  "drop_underscores ''calculate_club_transfer'' = lower ''CalculateClubTransfer''"
  by (simp_all add: drop_underscores_def char_defs)

lemma marker_arguments:
  "Category SpecOption_CpiCappedRevaluation \<noteq> None" "Description SpecOption_CpiCappedRevaluation \<noteq> None"
  "WhyItMatters SpecOption_CpiCappedRevaluation \<noteq> None"
  "Category SpecCapability_CalculateProRata \<noteq> None" "Description SpecCapability_CalculateProRata \<noteq> None"
  "WhyItMatters SpecCapability_CalculateProRata \<noteq> None"
  "Category SpecOption_FixedRateRevaluation \<noteq> None" "Description SpecOption_FixedRateRevaluation \<noteq> None"
  "WhyItMatters SpecOption_FixedRateRevaluation = None"
  "Category SpecOption_GmpEqualiser \<noteq> None" "Description SpecOption_GmpEqualiser \<noteq> None"
  "WhyItMatters SpecOption_GmpEqualiser \<noteq> None"
  "Category SpecCapability_CheckAntiFranking \<noteq> None" "Description SpecCapability_CheckAntiFranking \<noteq> None"
  "WhyItMatters SpecCapability_CheckAntiFranking \<noteq> None"
  "Category SpecCapability_ApplySection148 \<noteq> None" "Description SpecCapability_ApplySection148 \<noteq> None"
  "WhyItMatters SpecCapability_ApplySection148 = None"
  "Category SpecCapability_CalculatePartialCetv \<noteq> None" "Description SpecCapability_CalculatePartialCetv \<noteq> None"
  "WhyItMatters SpecCapability_CalculatePartialCetv \<noteq> None"
  "Category SpecCapability_CalculateClubTransfer \<noteq> None" "Description SpecCapability_CalculateClubTransfer \<noteq> None"
  "WhyItMatters SpecCapability_CalculateClubTransfer = None"
  "Category SpecOption_TrivialCommutation \<noteq> None" "Description SpecOption_TrivialCommutation \<noteq> None"
  "WhyItMatters SpecOption_TrivialCommutation \<noteq> None"
  by (simp_all add: marker_defs)

lemma in_sample_modules:
  "CpiCappedRevaluation \<in> set sample_modules" "FixedRateRevaluation \<in> set sample_modules"
  "GmpEqualiser \<in> set sample_modules" "InternalHelper \<in> set sample_modules"
  "TransferCalculator \<in> set sample_modules" "TrivialCommutation \<in> set sample_modules"
  by (simp_all add: sample_modules_def)

section \<open>Identifiers in the committed catalogs\<close>

text \<open>
  Claim C1, as amended. The claim says that the id of an option is the slug of the
  marker's Name argument. The committed \<^verbatim>\<open>code-options.js\<close> shows otherwise. For every
  class of the sample modules with a class marker, the marker gives a Name and the catalog
  lists, under the lower-cased category, an option record with this Name as \<^verbatim>\<open>name\<close>
  and the class name as \<^verbatim>\<open>codeClass\<close>; its \<^verbatim>\<open>id\<close> comes from the class name:
  without its underscores the id is the class name in lower case.
\<close>

theorem committed_option_of_class_marker:
  assumes "c \<in> set sample_modules" and "classAttr c = Some m"
  shows "\<exists>r \<in> set (category_records CODE_OPTIONS (marker_category m)). \<exists>i.
           Name m \<noteq> None \<and> js_str ''name'' r = Name m \<and>
           js_str ''codeClass'' r = Some (className c) \<and>
           js_str ''id'' r = Some i \<and> drop_underscores i = lower (className c)"
  using assms(1)
proof (cases rule: sample_class_cases)
  case 1
  with assms(2) have "m = SpecOption_CpiCappedRevaluation"
    by (simp add: class_facts)
  with 1 show ?thesis
    by (simp add: marker_categories marker_names class_facts options_by_category option_facts
        drop_underscores_ids)
next
  case 2
  with assms(2) have "m = SpecOption_FixedRateRevaluation"
    by (simp add: class_facts)
  with 2 show ?thesis
    by (simp add: marker_categories marker_names class_facts options_by_category option_facts
        drop_underscores_ids)
next
  case 3
  with assms(2) have "m = SpecOption_GmpEqualiser"
    by (simp add: class_facts)
  with 3 show ?thesis
    by (simp add: marker_categories marker_names class_facts options_by_category option_facts
        drop_underscores_ids)
next
  case 4
  with assms(2) show ?thesis by (simp add: class_facts)
next
  case 5
  with assms(2) show ?thesis by (simp add: class_facts)
next
  case 6
  with assms(2) have "m = SpecOption_TrivialCommutation"
    by (simp add: class_facts)
  with 6 show ?thesis
    by (simp add: marker_categories marker_names class_facts options_by_category option_facts
        drop_underscores_ids)
qed

theorem committed_option_of_class_marker_witness:
  "FixedRateRevaluation \<in> set sample_modules \<and>
   classAttr FixedRateRevaluation = Some SpecOption_FixedRateRevaluation \<and>
   Name SpecOption_FixedRateRevaluation = Some ''Fixed Rate'' \<and>
   (\<exists>r \<in> set (category_records CODE_OPTIONS ''revaluation''). \<exists>i.
      js_str ''name'' r = Some ''Fixed Rate'' \<and>
      js_str ''codeClass'' r = Some ''FixedRateRevaluation'' \<and>
      js_str ''id'' r = Some i \<and> drop_underscores i = lower ''FixedRateRevaluation'') \<and>
   js_str ''id'' opt_fixed_rate_revaluation = Some ''fixed_rate_revaluation''"
proof -
  have c: "FixedRateRevaluation \<in> set sample_modules"
    by (simp add: sample_modules_def)
  have m: "classAttr FixedRateRevaluation = Some SpecOption_FixedRateRevaluation"
    by (simp add: class_facts)
  from committed_option_of_class_marker [OF c m] c m show ?thesis
    by (simp add: marker_categories marker_names class_facts option_facts)
qed

text \<open>
  The counterexample to claim C1 as stated: \<^verbatim>\<open>FixedRateRevaluation\<close> is marked with
  the Name \<^verbatim>\<open>Fixed Rate\<close>, but no option record has the id \<^verbatim>\<open>fixed_rate\<close>; the
  record named \<^verbatim>\<open>Fixed Rate\<close> has the id \<^verbatim>\<open>fixed_rate_revaluation\<close>.
\<close>

theorem fixed_rate_id_counterexample:
  "FixedRateRevaluation \<in> set sample_modules \<and>
   classAttr FixedRateRevaluation = Some SpecOption_FixedRateRevaluation \<and>
   Name SpecOption_FixedRateRevaluation = Some ''Fixed Rate'' \<and>
   Some ''fixed_rate'' \<notin> set (map (js_str ''id'') (catalog_records CODE_OPTIONS)) \<and>
   js_str ''name'' opt_fixed_rate_revaluation = Some ''Fixed Rate'' \<and>
   js_str ''id'' opt_fixed_rate_revaluation = Some ''fixed_rate_revaluation''"
  by (simp add: sample_modules_def class_facts marker_names options_records option_facts)




section \<open>The \<^verbatim>\<open>parentOption\<close> property in the committed catalogs\<close>

text \<open>
  Claim C2, as amended. The claim says that a capability whose class produced no option
  still has a \<^verbatim>\<open>parentOption\<close> property, present but empty. In the committed
  \<^verbatim>\<open>code-capabilities.js\<close> every capability record whose \<^verbatim>\<open>codeClass\<close> is not the
  class of an option record of the committed \<^verbatim>\<open>code-options.js\<close> has no
  \<^verbatim>\<open>parentOption\<close> property at all.
\<close>

theorem standalone_capability_omits_parentOption:
  assumes "cap \<in> set (catalog_records CODE_CAPABILITIES)"
    and "js_str ''codeClass'' cap \<notin> set option_classes"
  shows "''parentOption'' \<notin> set (js_keys cap)"
  using assms(1)
proof (cases rule: capability_cases)
  case 1
  with assms(2) show ?thesis by (simp add: capability_classes option_classes_eq)
next
  case 2
  with assms(2) show ?thesis by (simp add: capability_classes option_classes_eq)
next
  case 3
  with assms(2) show ?thesis by (simp add: capability_classes option_classes_eq)
next
  case 4
  then show ?thesis by (simp add: capability_keys)
next
  case 5
  then show ?thesis by (simp add: capability_keys)
qed

theorem standalone_capability_omits_parentOption_witness:
  "cap_calculate_club_transfer \<in> set (catalog_records CODE_CAPABILITIES) \<and>
   js_str ''codeClass'' cap_calculate_club_transfer \<notin> set option_classes \<and>
   ''parentOption'' \<notin> set (js_keys cap_calculate_club_transfer)"
proof -
  have a: "cap_calculate_club_transfer \<in> set (catalog_records CODE_CAPABILITIES)"
    by (simp add: capabilities_records)
  have b: "js_str ''codeClass'' cap_calculate_club_transfer \<notin> set option_classes"
    by (simp add: capability_classes option_classes_eq)
  from standalone_capability_omits_parentOption [OF a b] a b show ?thesis by simp
qed

text \<open>
  The counterexample to claim C2 as stated: the record of \<^verbatim>\<open>CalculatePartialCetv\<close>
  under \<^verbatim>\<open>transfers\<close>, whose class \<^verbatim>\<open>TransferCalculator\<close> has no option record,
  does not have the property; reading it gives \<^verbatim>\<open>undefined\<close>.
\<close>

theorem parentOption_present_but_empty_counterexample:
  "cap_calculate_partial_cetv \<in> set (category_records CODE_CAPABILITIES ''transfers'') \<and>
   js_str ''codeClass'' cap_calculate_partial_cetv \<notin> set option_classes \<and>
   js_get ''parentOption'' cap_calculate_partial_cetv = None \<and>
   ''parentOption'' \<notin> set (js_keys cap_calculate_partial_cetv)"
  by (simp add: capabilities_by_category capability_classes option_classes_eq capability_keys
      no_key)

text \<open>
  Claim C10. Whenever a capability record of \<^verbatim>\<open>code-capabilities.js\<close> has a
  \<^verbatim>\<open>parentOption\<close>, the options catalog of \<^verbatim>\<open>code-options.js\<close> holds an option
  record with the id and the name that the \<^verbatim>\<open>parentOption\<close> object gives, and this
  option record has the capability's \<^verbatim>\<open>codeClass\<close>, \<^verbatim>\<open>scheme\<close> and
  \<^verbatim>\<open>lastModified\<close>.
\<close>

theorem parent_option_refers_to_option:
  assumes "cap \<in> set (catalog_records CODE_CAPABILITIES)"
    and "js_get ''parentOption'' cap = Some p"
  shows "\<exists>opt \<in> set (catalog_records CODE_OPTIONS).
           same_str ''id'' opt p \<and> same_str ''name'' opt p \<and>
           same_str ''codeClass'' opt cap \<and> same_str ''scheme'' opt cap \<and>
           same_str ''lastModified'' opt cap"
  using assms(1)
proof (cases rule: capability_cases)
  case 1
  with assms(2) have "p = JObj [(''id'', JStr ''gmp_equaliser''),
      (''name'', JStr ''GMP Equalisation (Dual Record)'')]"
    by (simp add: cap_check_anti_franking_def js_defs)
  with 1 have "same_str ''id'' opt_gmp_equaliser p \<and> same_str ''name'' opt_gmp_equaliser p \<and>
      same_str ''codeClass'' opt_gmp_equaliser cap \<and> same_str ''scheme'' opt_gmp_equaliser cap \<and>
      same_str ''lastModified'' opt_gmp_equaliser cap"
    by (simp add: same_str_def cap_check_anti_franking_def opt_gmp_equaliser_def js_defs)
  then show ?thesis by (auto simp: options_records)
next
  case 2
  with assms(2) have "p = JObj [(''id'', JStr ''gmp_equaliser''),
      (''name'', JStr ''GMP Equalisation (Dual Record)'')]"
    by (simp add: cap_apply_section148_def js_defs)
  with 2 have "same_str ''id'' opt_gmp_equaliser p \<and> same_str ''name'' opt_gmp_equaliser p \<and>
      same_str ''codeClass'' opt_gmp_equaliser cap \<and> same_str ''scheme'' opt_gmp_equaliser cap \<and>
      same_str ''lastModified'' opt_gmp_equaliser cap"
    by (simp add: same_str_def cap_apply_section148_def opt_gmp_equaliser_def js_defs)
  then show ?thesis by (auto simp: options_records)
next
  case 3
  with assms(2) have "p = JObj [(''id'', JStr ''cpi_capped_revaluation''),
      (''name'', JStr ''CPI-Capped (s101)'')]"
    by (simp add: cap_calculate_pro_rata_def js_defs)
  with 3 have "same_str ''id'' opt_cpi_capped_revaluation p \<and>
      same_str ''name'' opt_cpi_capped_revaluation p \<and>
      same_str ''codeClass'' opt_cpi_capped_revaluation cap \<and>
      same_str ''scheme'' opt_cpi_capped_revaluation cap \<and>
      same_str ''lastModified'' opt_cpi_capped_revaluation cap"
    by (simp add: same_str_def cap_calculate_pro_rata_def opt_cpi_capped_revaluation_def js_defs)
  then show ?thesis by (auto simp: options_records)
next
  case 4
  with assms(2) show ?thesis by (simp add: cap_calculate_partial_cetv_def js_defs)
next
  case 5
  with assms(2) show ?thesis by (simp add: cap_calculate_club_transfer_def js_defs)
qed

theorem parent_option_refers_to_option_witness:
  "cap_calculate_pro_rata \<in> set (catalog_records CODE_CAPABILITIES) \<and>
   js_get ''parentOption'' cap_calculate_pro_rata =
     Some (JObj [(''id'', JStr ''cpi_capped_revaluation''),
                 (''name'', JStr ''CPI-Capped (s101)'')]) \<and>
   (\<exists>opt \<in> set (catalog_records CODE_OPTIONS).
      same_str ''id'' opt
        (JObj [(''id'', JStr ''cpi_capped_revaluation''),
               (''name'', JStr ''CPI-Capped (s101)'')]) \<and>
      same_str ''codeClass'' opt cap_calculate_pro_rata \<and>
      same_str ''lastModified'' opt cap_calculate_pro_rata)"
proof -
  have a: "cap_calculate_pro_rata \<in> set (catalog_records CODE_CAPABILITIES)"
    by (simp add: capabilities_records)
  have b: "js_get ''parentOption'' cap_calculate_pro_rata =
     Some (JObj [(''id'', JStr ''cpi_capped_revaluation''),
                 (''name'', JStr ''CPI-Capped (s101)'')])"
    by (simp add: cap_calculate_pro_rata_def js_defs)
  from parent_option_refers_to_option [OF a b] a b show ?thesis by blast
qed

section \<open>The properties of the committed records\<close>

lemma option_record_properties:
  assumes "(k, rs) \<in> set (js_fields CODE_OPTIONS)" and "r \<in> set (js_elems rs)"
  shows "\<exists>c \<in> set sample_modules. \<exists>m.
           classAttr c = Some m \<and> js_str ''codeClass'' r = Some (className c) \<and>
           k = marker_category m \<and> Category m \<noteq> None \<and> Description m \<noteq> None \<and>
           js_keys r =
             [''id'', ''name'', ''description''] @
             (if WhyItMatters m = None then [] else [''whyItMatters'']) @
             [''codeClass'', ''scheme'', ''lastModified'']"
proof -
  from assms consider
      "k = ''commutation''" "r = opt_trivial_commutation"
    | "k = ''gmp''" "r = opt_gmp_equaliser"
    | "k = ''revaluation''" "r = opt_cpi_capped_revaluation"
    | "k = ''revaluation''" "r = opt_fixed_rate_revaluation"
    by (auto simp: CODE_OPTIONS_def js_fields_def js_elems_def)
  then show ?thesis
  proof cases
    case 1
    then show ?thesis
      by (intro bexI [of _ TrivialCommutation] exI [of _ SpecOption_TrivialCommutation])
         (simp_all add: class_facts option_facts marker_categories marker_arguments option_keys
           in_sample_modules)
  next
    case 2
    then show ?thesis
      by (intro bexI [of _ GmpEqualiser] exI [of _ SpecOption_GmpEqualiser])
         (simp_all add: class_facts option_facts marker_categories marker_arguments option_keys
           in_sample_modules)
  next
    case 3
    then show ?thesis
      by (intro bexI [of _ CpiCappedRevaluation] exI [of _ SpecOption_CpiCappedRevaluation])
         (simp_all add: class_facts option_facts marker_categories marker_arguments option_keys
           in_sample_modules)
  next
    case 4
    then show ?thesis
      by (intro bexI [of _ FixedRateRevaluation] exI [of _ SpecOption_FixedRateRevaluation])
         (simp_all add: class_facts option_facts marker_categories marker_arguments option_keys
           in_sample_modules)
  qed
qed

lemma capability_record_properties:
  assumes "(k, rs) \<in> set (js_fields CODE_CAPABILITIES)" and "r \<in> set (js_elems rs)"
  shows "\<exists>c \<in> set sample_modules. \<exists>f \<in> set (classMethods c). \<exists>m.
           methodAttr f = Some m \<and> js_str ''codeClass'' r = Some (className c) \<and>
           js_str ''methodName'' r = Some (methodName f) \<and>
           k = marker_category m \<and> Category m \<noteq> None \<and> Description m \<noteq> None \<and>
           js_keys r =
             [''id'', ''name'', ''description''] @
             (if WhyItMatters m = None then [] else [''whyItMatters'']) @
             [''methodName'', ''returnType'', ''parameters''] @
             (if js_str ''codeClass'' r \<in> set option_classes then [''parentOption''] else []) @
             [''codeClass'', ''scheme'', ''lastModified'']"
proof -
  from assms consider
      "k = ''gmp''" "r = cap_check_anti_franking"
    | "k = ''gmp''" "r = cap_apply_section148"
    | "k = ''revaluation''" "r = cap_calculate_pro_rata"
    | "k = ''transfers''" "r = cap_calculate_partial_cetv"
    | "k = ''transfers''" "r = cap_calculate_club_transfer"
    by (auto simp: CODE_CAPABILITIES_def js_fields_def js_elems_def)
  then show ?thesis
  proof cases
    case 1
    then show ?thesis
      by (intro bexI [of _ GmpEqualiser] bexI [of _ GmpEqualiser_CheckAntiFranking] exI [of _ SpecCapability_CheckAntiFranking])
         (simp_all add: class_facts method_facts capability_classes capability_methods
           marker_categories marker_arguments capability_keys option_classes_eq in_sample_modules)
  next
    case 2
    then show ?thesis
      by (intro bexI [of _ GmpEqualiser] bexI [of _ GmpEqualiser_ApplySection148] exI [of _ SpecCapability_ApplySection148])
         (simp_all add: class_facts method_facts capability_classes capability_methods
           marker_categories marker_arguments capability_keys option_classes_eq in_sample_modules)
  next
    case 3
    then show ?thesis
      by (intro bexI [of _ CpiCappedRevaluation] bexI [of _ CpiCappedRevaluation_CalculateProRata] exI [of _ SpecCapability_CalculateProRata])
         (simp_all add: class_facts method_facts capability_classes capability_methods
           marker_categories marker_arguments capability_keys option_classes_eq in_sample_modules)
  next
    case 4
    then show ?thesis
      by (intro bexI [of _ TransferCalculator] bexI [of _ TransferCalculator_CalculatePartialCetv] exI [of _ SpecCapability_CalculatePartialCetv])
         (simp_all add: class_facts method_facts capability_classes capability_methods
           marker_categories marker_arguments capability_keys option_classes_eq in_sample_modules)
  next
    case 5
    then show ?thesis
      by (intro bexI [of _ TransferCalculator] bexI [of _ TransferCalculator_CalculateClubTransfer] exI [of _ SpecCapability_CalculateClubTransfer])
         (simp_all add: class_facts method_facts capability_classes capability_methods
           marker_categories marker_arguments capability_keys option_classes_eq in_sample_modules)
  qed
qed

text \<open>
  Claim C6, as amended. The claim says that every record has exactly the fields of the
  data model, a \<^verbatim>\<open>category\<close> among them, also when the marker leaves an optional
  argument out. The committed catalogs write fewer. Each of their nine records is listed
  under the lower-cased Category of its marker in the sample modules, and its properties
  are, in this order: \<^verbatim>\<open>id\<close>, \<^verbatim>\<open>name\<close>, \<^verbatim>\<open>description\<close>; \<^verbatim>\<open>whyItMatters\<close> if
  and only if the marker gives WhyItMatters; for a capability \<^verbatim>\<open>methodName\<close>,
  \<^verbatim>\<open>returnType\<close>, \<^verbatim>\<open>parameters\<close>, and \<^verbatim>\<open>parentOption\<close> if and only if its class is
  the class of an option record; \<^verbatim>\<open>codeClass\<close>, \<^verbatim>\<open>scheme\<close>, \<^verbatim>\<open>lastModified\<close>. So no
  record has a \<^verbatim>\<open>category\<close> property. Every marker of the sample modules gives a
  Description, so the catalogs show nothing about a marker without one.
\<close>

theorem committed_record_properties:
  "(\<forall>(k, rs) \<in> set (js_fields CODE_OPTIONS). \<forall>r \<in> set (js_elems rs).
      \<exists>c \<in> set sample_modules. \<exists>m.
        classAttr c = Some m \<and> js_str ''codeClass'' r = Some (className c) \<and>
        k = marker_category m \<and> Category m \<noteq> None \<and> Description m \<noteq> None \<and>
        js_keys r =
          [''id'', ''name'', ''description''] @
          (if WhyItMatters m = None then [] else [''whyItMatters'']) @
          [''codeClass'', ''scheme'', ''lastModified'']) \<and>
   (\<forall>(k, rs) \<in> set (js_fields CODE_CAPABILITIES). \<forall>r \<in> set (js_elems rs).
      \<exists>c \<in> set sample_modules. \<exists>f \<in> set (classMethods c). \<exists>m.
        methodAttr f = Some m \<and> js_str ''codeClass'' r = Some (className c) \<and>
        js_str ''methodName'' r = Some (methodName f) \<and>
        k = marker_category m \<and> Category m \<noteq> None \<and> Description m \<noteq> None \<and>
        js_keys r =
          [''id'', ''name'', ''description''] @
          (if WhyItMatters m = None then [] else [''whyItMatters'']) @
          [''methodName'', ''returnType'', ''parameters''] @
          (if js_str ''codeClass'' r \<in> set option_classes then [''parentOption''] else []) @
          [''codeClass'', ''scheme'', ''lastModified''])"
  using option_record_properties capability_record_properties by blast

theorem committed_record_properties_witness:
  "(''revaluation'', JArr [opt_cpi_capped_revaluation, opt_fixed_rate_revaluation])
     \<in> set (js_fields CODE_OPTIONS) \<and>
   classAttr FixedRateRevaluation = Some SpecOption_FixedRateRevaluation \<and>
   WhyItMatters SpecOption_FixedRateRevaluation = None \<and>
   marker_category SpecOption_FixedRateRevaluation = ''revaluation'' \<and>
   js_keys opt_fixed_rate_revaluation =
     [''id'', ''name'', ''description'', ''codeClass'', ''scheme'', ''lastModified'']"
proof -
  have a: "(''revaluation'', JArr [opt_cpi_capped_revaluation, opt_fixed_rate_revaluation])
      \<in> set (js_fields CODE_OPTIONS)"
    by (simp add: CODE_OPTIONS_def js_fields_def)
  have b: "opt_fixed_rate_revaluation
      \<in> set (js_elems (JArr [opt_cpi_capped_revaluation, opt_fixed_rate_revaluation]))"
    by (simp add: js_elems_def)
  from committed_record_properties a b
  have "\<exists>c \<in> set sample_modules. \<exists>m.
      classAttr c = Some m \<and>
      js_str ''codeClass'' opt_fixed_rate_revaluation = Some (className c) \<and>
      ''revaluation'' = marker_category m \<and> Category m \<noteq> None \<and> Description m \<noteq> None \<and>
      js_keys opt_fixed_rate_revaluation =
        [''id'', ''name'', ''description''] @
        (if WhyItMatters m = None then [] else [''whyItMatters'']) @
        [''codeClass'', ''scheme'', ''lastModified'']"
    by blast
  then have "js_keys opt_fixed_rate_revaluation =
      [''id'', ''name'', ''description'', ''codeClass'', ''scheme'', ''lastModified'']"
    by (auto simp: sample_modules_def class_facts option_facts marker_arguments)
  with a show ?thesis
    by (simp add: class_facts marker_arguments marker_categories)
qed

text \<open>
  The counterexample to claim C6 as stated: the option record of
  \<^verbatim>\<open>FixedRateRevaluation\<close>, whose marker gives no WhyItMatters, has neither a
  \<^verbatim>\<open>whyItMatters\<close> nor a \<^verbatim>\<open>category\<close> property, and the capability record of
  \<^verbatim>\<open>CalculateClubTransfer\<close> has no \<^verbatim>\<open>whyItMatters\<close>, no \<^verbatim>\<open>parentOption\<close> and no
  \<^verbatim>\<open>category\<close>.
\<close>

theorem exact_fields_counterexample:
  "opt_fixed_rate_revaluation \<in> set (category_records CODE_OPTIONS ''revaluation'') \<and>
   ''whyItMatters'' \<notin> set (js_keys opt_fixed_rate_revaluation) \<and>
   ''category'' \<notin> set (js_keys opt_fixed_rate_revaluation) \<and>
   cap_calculate_club_transfer \<in> set (category_records CODE_CAPABILITIES ''transfers'') \<and>
   ''whyItMatters'' \<notin> set (js_keys cap_calculate_club_transfer) \<and>
   ''parentOption'' \<notin> set (js_keys cap_calculate_club_transfer) \<and>
   ''category'' \<notin> set (js_keys cap_calculate_club_transfer)"
  by (simp add: options_by_category capabilities_by_category option_keys capability_keys)

section \<open>The date of last modification\<close>

text \<open>
  Claim C8. Truncation to the date keeps the date part of a timestamp that starts with a
  date: the example timestamp \<^verbatim>\<open>2025-12-01T16:45:00\<close> becomes \<^verbatim>\<open>2025-12-01\<close>. The
  records of the two catalogs agree with it: every record whose class is the module of the
  example input record has the truncated timestamp of that input record as
  \<^verbatim>\<open>lastModified\<close>, and every \<^verbatim>\<open>lastModified\<close> of the catalogs is a date that the
  truncation leaves as it is.
\<close>

theorem lastModified_truncated_to_date:
  "(\<forall>d t. is_date d \<longrightarrow> truncate_to_date (d @ t) = d) \<and>
   (\<forall>r \<in> set all_records.
      js_str ''codeClass'' r = js_str ''moduleName'' json_input_example \<longrightarrow>
      js_str ''lastModified'' r =
        map_option truncate_to_date (js_str ''lastModified'' json_input_example)) \<and>
   (\<forall>r \<in> set all_records.
      \<exists>d. js_str ''lastModified'' r = Some d \<and> is_date d \<and> truncate_to_date d = d)"
proof (intro conjI)
  show "\<forall>d t. is_date d \<longrightarrow> truncate_to_date (d @ t) = d"
    by (simp add: truncate_date_prefix)
  show "\<forall>r \<in> set all_records.
      js_str ''codeClass'' r = js_str ''moduleName'' json_input_example \<longrightarrow>
      js_str ''lastModified'' r =
        map_option truncate_to_date (js_str ''lastModified'' json_input_example)"
    by (simp add: all_records_def options_records capabilities_records option_facts
        capability_classes json_input_example_eval last_modified truncate_to_date_def)
  show "\<forall>r \<in> set all_records.
      \<exists>d. js_str ''lastModified'' r = Some d \<and> is_date d \<and> truncate_to_date d = d"
    by (simp add: all_records_def options_records capabilities_records last_modified
        dates_eval truncate_to_date_def)
qed

theorem lastModified_truncated_to_date_witness:
  "is_date ''2025-12-01'' \<and>
   truncate_to_date ''2025-12-01T16:45:00'' = ''2025-12-01'' \<and>
   opt_gmp_equaliser \<in> set all_records \<and>
   js_str ''codeClass'' opt_gmp_equaliser = js_str ''moduleName'' json_input_example \<and>
   js_str ''lastModified'' json_input_example = Some ''2025-12-01T16:45:00'' \<and>
   js_str ''lastModified'' opt_gmp_equaliser = Some (truncate_to_date ''2025-12-01T16:45:00'')"
proof -
  have d: "is_date ''2025-12-01''" by (simp add: dates_eval)
  have a: "opt_gmp_equaliser \<in> set all_records"
    by (simp add: all_records_def options_records)
  have b: "js_str ''codeClass'' opt_gmp_equaliser = js_str ''moduleName'' json_input_example"
    by (simp add: option_facts json_input_example_eval)
  from lastModified_truncated_to_date d
  have "truncate_to_date (''2025-12-01'' @ ''T16:45:00'') = ''2025-12-01''"
    by blast
  moreover from lastModified_truncated_to_date a b
  have "js_str ''lastModified'' opt_gmp_equaliser =
        map_option truncate_to_date (js_str ''lastModified'' json_input_example)"
    by blast
  ultimately show ?thesis
    using d a b by (simp add: json_input_example_eval)
qed

section \<open>The Entity Builder of the model\<close>

lemma build_option_eligible: "(build_option ident src c \<noteq> None) = class_eligible c"
  by (simp add: build_option_def class_eligible_def eligible_def split: option.splits)

lemma build_capability_eligible:
  "methodAttr f = Some m \<Longrightarrow> eligible m \<Longrightarrow> build_capability ident src c f \<noteq> None"
  by (auto simp: build_capability_def eligible_def split: option.splits)

lemma build_capability_fields:
  assumes "build_capability ident src c f = Some cap"
  shows "capability_parentOption cap =
           map_option (\<lambda>opt. (option_id opt, option_name opt)) (build_option ident src c)"
    and "capability_methodName cap = methodName f"
    and "capability_codeClass cap = className c"
  using assms by (auto simp: build_capability_def split: option.splits)

lemma set_map_filter:
  "set (List.map_filter g xs) = {y. \<exists>x \<in> set xs. g x = Some y}"
  by (induction xs) (auto split: option.splits)

lemma in_extract_options:
  "(opt \<in> set (extract_options ident files)) =
     (\<exists>src \<in> set files. \<exists>c \<in> set (file_classes src). build_option ident src c = Some opt)"
  by (auto simp: extract_options_def set_map_filter)

lemma in_extract_capabilities:
  "(cap \<in> set (extract_capabilities ident files)) =
     (\<exists>src \<in> set files. \<exists>c \<in> set (file_classes src). \<exists>f \<in> set (classMethods c).
        build_capability ident src c f = Some cap)"
  by (auto simp: extract_capabilities_def set_map_filter)

text \<open>
  Claim C4, for the model of the extractor. Every capability that a run emits comes from
  a method of a class of one of the files, and its parent reference is set exactly when
  this class produced an option in the same run; it is then the id and the name of that
  option. And a method marker with Category and Name in a class without an eligible class
  marker still yields a capability, a standalone one, with no parent reference.
\<close>

theorem capability_parent_iff_class_option:
  "(\<forall>cap \<in> set (extract_capabilities ident files).
      \<exists>src \<in> set files. \<exists>c \<in> set (file_classes src). \<exists>f \<in> set (classMethods c).
        build_capability ident src c f = Some cap \<and>
        (capability_parentOption cap \<noteq> None) =
          (\<exists>opt \<in> set (extract_options ident files). build_option ident src c = Some opt) \<and>
        (\<forall>opt. build_option ident src c = Some opt \<longrightarrow>
           capability_parentOption cap = Some (option_id opt, option_name opt))) \<and>
   (\<forall>src \<in> set files. \<forall>c \<in> set (file_classes src). \<forall>f \<in> set (classMethods c). \<forall>m.
      methodAttr f = Some m \<and> eligible m \<and> \<not> class_eligible c \<longrightarrow>
      (\<exists>cap \<in> set (extract_capabilities ident files).
         capability_methodName cap = methodName f \<and>
         capability_codeClass cap = className c \<and>
         capability_parentOption cap = None))"
proof (intro conjI ballI allI impI)
  fix cap
  assume "cap \<in> set (extract_capabilities ident files)"
  then obtain src c f where in_files: "src \<in> set files" "c \<in> set (file_classes src)"
      "f \<in> set (classMethods c)"
    and cap: "build_capability ident src c f = Some cap"
    by (auto simp: in_extract_capabilities)
  have parent: "capability_parentOption cap =
      map_option (\<lambda>opt. (option_id opt, option_name opt)) (build_option ident src c)"
    using cap by (rule build_capability_fields)
  have "(capability_parentOption cap \<noteq> None) =
      (\<exists>opt \<in> set (extract_options ident files). build_option ident src c = Some opt)"
  proof (cases "build_option ident src c")
    case None
    with parent show ?thesis by simp
  next
    case (Some opt)
    with in_files have "opt \<in> set (extract_options ident files)"
      by (auto simp: in_extract_options)
    with Some parent show ?thesis by simp
  qed
  moreover have "\<forall>opt. build_option ident src c = Some opt \<longrightarrow>
      capability_parentOption cap = Some (option_id opt, option_name opt)"
    using parent by simp
  ultimately show "\<exists>src \<in> set files. \<exists>c \<in> set (file_classes src). \<exists>f \<in> set (classMethods c).
        build_capability ident src c f = Some cap \<and>
        (capability_parentOption cap \<noteq> None) =
          (\<exists>opt \<in> set (extract_options ident files). build_option ident src c = Some opt) \<and>
        (\<forall>opt. build_option ident src c = Some opt \<longrightarrow>
           capability_parentOption cap = Some (option_id opt, option_name opt))"
    using in_files cap by blast
next
  fix src c f m
  assume in_files: "src \<in> set files" "c \<in> set (file_classes src)" "f \<in> set (classMethods c)"
    and m: "methodAttr f = Some m \<and> eligible m \<and> \<not> class_eligible c"
  then obtain cap where cap: "build_capability ident src c f = Some cap"
    using build_capability_eligible [of f m ident src c] by auto
  from m have "build_option ident src c = None"
    using build_option_eligible [of ident src c] by simp
  with cap have "capability_parentOption cap = None"
    by (simp add: build_capability_fields)
  moreover from cap in_files have "cap \<in> set (extract_capabilities ident files)"
    by (auto simp: in_extract_capabilities)
  moreover from cap have "capability_methodName cap = methodName f"
    and "capability_codeClass cap = className c"
    by (rule build_capability_fields)+
  ultimately show "\<exists>cap \<in> set (extract_capabilities ident files).
         capability_methodName cap = methodName f \<and>
         capability_codeClass cap = className c \<and>
         capability_parentOption cap = None"
    by blast
qed

lemma sample_extract_capabilities:
  "map (\<lambda>cap. (capability_category cap, capability_methodName cap,
                map_option snd (capability_parentOption cap)))
     (extract_capabilities (\<lambda>declared name. slug name) [gmp_module, transfer_module]) =
   [(''GMP'', ''CheckAntiFranking'', Some ''GMP Equalisation (Dual Record)''),
    (''GMP'', ''ApplySection148'', Some ''GMP Equalisation (Dual Record)''),
    (''Transfers'', ''CalculatePartialCetv'', None),
    (''Transfers'', ''CalculateClubTransfer'', None)]"
  by (simp add: extract_capabilities_def gmp_module_def transfer_module_def class_facts
      build_capability_def build_option_def method_facts marker_defs)

theorem capability_parent_iff_class_option_witness:
  "transfer_module \<in> set [gmp_module, transfer_module] \<and>
   TransferCalculator \<in> set (file_classes transfer_module) \<and>
   TransferCalculator_CalculatePartialCetv \<in> set (classMethods TransferCalculator) \<and>
   methodAttr TransferCalculator_CalculatePartialCetv = Some SpecCapability_CalculatePartialCetv \<and>
   eligible SpecCapability_CalculatePartialCetv \<and>
   \<not> class_eligible TransferCalculator \<and>
   (\<exists>cap \<in> set (extract_capabilities (\<lambda>declared name. slug name) [gmp_module, transfer_module]).
      capability_methodName cap = ''CalculatePartialCetv'' \<and>
      capability_codeClass cap = ''TransferCalculator'' \<and>
      capability_parentOption cap = None) \<and>
   js_str ''methodName'' cap_calculate_partial_cetv = Some ''CalculatePartialCetv'' \<and>
   js_get ''parentOption'' cap_calculate_partial_cetv = None"
proof -
  have a: "transfer_module \<in> set [gmp_module, transfer_module]" by simp
  have c: "TransferCalculator \<in> set (file_classes transfer_module)"
    by (simp add: transfer_module_def)
  have f: "TransferCalculator_CalculatePartialCetv \<in> set (classMethods TransferCalculator)"
    by (simp add: class_facts)
  have m: "methodAttr TransferCalculator_CalculatePartialCetv =
      Some SpecCapability_CalculatePartialCetv \<and> eligible SpecCapability_CalculatePartialCetv \<and>
      \<not> class_eligible TransferCalculator"
    by (simp add: method_facts marker_eligible class_eligible_eval)
  from capability_parent_iff_class_option
    [of "\<lambda>declared name. slug name" "[gmp_module, transfer_module]"] a c f m
  have "\<exists>cap \<in> set (extract_capabilities (\<lambda>declared name. slug name)
          [gmp_module, transfer_module]).
      capability_methodName cap = methodName TransferCalculator_CalculatePartialCetv \<and>
      capability_codeClass cap = className TransferCalculator \<and>
      capability_parentOption cap = None"
    by blast
  then show ?thesis
    using a c f m
    by (simp add: method_facts class_facts capability_methods no_key capability_keys)
qed

section \<open>The Category Aggregator of the model\<close>

lemma lower_char_idem: "lower_char (lower_char c) = lower_char c"
  by (simp add: lower_char_def upper_letters_def lower_letters_def)

lemma lower_idem: "lower (lower s) = lower s"
  by (simp add: lower_def lower_char_idem)

lemma add_entity_keys:
  "map fst (add_entity k e acc) =
     (if k \<in> set (map fst acc) then map fst acc else map fst acc @ [k])"
  by (induction acc) force+

lemma add_entity_key_set:
  "set (map fst (add_entity k e acc)) = insert k (set (map fst acc))"
  by (simp add: add_entity_keys insert_absorb)

lemma add_entity_distinct:
  "distinct (map fst acc) \<Longrightarrow> distinct (map fst (add_entity k e acc))"
  by (simp add: add_entity_keys)

lemma add_entity_lookup:
  "map_of (add_entity k e acc) k' =
     (if k' = k then Some ((case map_of acc k of None \<Rightarrow> [] | Some b \<Rightarrow> b) @ [e])
      else map_of acc k')"
  by (induction acc) auto

lemma foldl_add_distinct:
  "distinct (map fst acc) \<Longrightarrow>
   distinct (map fst (foldl (\<lambda>acc e. add_entity (key e) e acc) acc es))"
  by (induction es arbitrary: acc) (simp_all add: add_entity_distinct)

lemma foldl_add_keys:
  "set (map fst (foldl (\<lambda>acc e. add_entity (key e) e acc) acc es)) =
     set (map fst acc) \<union> key ` set es"
  by (induction es arbitrary: acc) (simp_all add: add_entity_key_set del: set_map)

lemma foldl_add_lookup:
  "map_of (foldl (\<lambda>acc e. add_entity (key e) e acc) acc es) k =
     (if map_of acc k = None \<and> k \<notin> key ` set es then None
      else Some ((case map_of acc k of None \<Rightarrow> [] | Some b \<Rightarrow> b) @
                 filter (\<lambda>e. key e = k) es))"
proof (induction es arbitrary: acc)
  case Nil
  then show ?case by (simp split: option.splits)
next
  case (Cons e es)
  show ?case
    by (simp add: Cons.IH add_entity_lookup split: option.splits)
qed

lemma group_distinct: "distinct (map fst (group_by_category category es))"
  by (simp add: group_by_category_def foldl_add_distinct)

lemma group_keys:
  "set (map fst (group_by_category category es)) = (\<lambda>e. lower (category e)) ` set es"
  using foldl_add_keys [of "\<lambda>e. lower (category e)" "[]" es]
  by (simp add: group_by_category_def)

lemma group_lookup:
  "map_of (group_by_category category es) k =
     (if k \<in> (\<lambda>e. lower (category e)) ` set es
      then Some (filter (\<lambda>e. lower (category e) = k) es) else None)"
  using foldl_add_lookup [of "\<lambda>e. lower (category e)" "[]" es k]
  by (simp add: group_by_category_def)

text \<open>
  Claim C7, for the model of the extractor. The keys of an aggregated catalog are in
  alphabetical order, each once; they are the lower-cased categories of the entities, so
  each key is in lower case; and under a key stand exactly the entities of this category,
  in the order in which the scan handed them over.
\<close>

theorem aggregate_sorted_and_in_scan_order:
  "sorted (map fst (aggregate category es)) \<and>
   distinct (map fst (aggregate category es)) \<and>
   set (map fst (aggregate category es)) = (\<lambda>e. lower (category e)) ` set es \<and>
   (\<forall>(k, listed) \<in> set (aggregate category es).
      lower k = k \<and> listed \<noteq> [] \<and> listed = filter (\<lambda>e. lower (category e) = k) es)"
proof (intro conjI)
  show "sorted (map fst (aggregate category es))"
    by (simp add: aggregate_def)
  show d: "distinct (map fst (aggregate category es))"
    using group_distinct [of category es] by (simp add: aggregate_def distinct_map)
  show "set (map fst (aggregate category es)) = (\<lambda>e. lower (category e)) ` set es"
    using group_keys [of category es] by (simp add: aggregate_def)
  show "\<forall>(k, listed) \<in> set (aggregate category es).
      lower k = k \<and> listed \<noteq> [] \<and> listed = filter (\<lambda>e. lower (category e) = k) es"
  proof (clarify, intro conjI)
    fix k listed
    assume "(k, listed) \<in> set (aggregate category es)"
    then have m: "(k, listed) \<in> set (group_by_category category es)"
      by (simp add: aggregate_def)
    then have "map_of (group_by_category category es) k = Some listed"
      using group_distinct [of category es] by simp
    then have k: "k \<in> (\<lambda>e. lower (category e)) ` set es"
      and l: "listed = filter (\<lambda>e. lower (category e) = k) es"
      by (auto simp: group_lookup split: if_splits)
    from k show "lower k = k" by (auto simp: lower_idem)
    from l show "listed = filter (\<lambda>e. lower (category e) = k) es" .
    from k l show "listed \<noteq> []" by (auto simp: filter_empty_conv)
  qed
qed

lemma sample_aggregate:
  "map (\<lambda>(k, listed). (k, map capability_methodName listed))
     (aggregate capability_category
        (extract_capabilities (\<lambda>declared name. slug name) [transfer_module, gmp_module])) =
   [(''gmp'', [''CheckAntiFranking'', ''ApplySection148'']),
    (''transfers'', [''CalculatePartialCetv'', ''CalculateClubTransfer''])]"
  by (simp add: aggregate_def group_by_category_def extract_capabilities_def gmp_module_def
      transfer_module_def class_facts build_capability_def
      build_option_def method_facts marker_defs char_defs)

theorem aggregate_sorted_and_in_scan_order_witness:
  "\<exists>listed.
     (''gmp'', listed) \<in> set (aggregate capability_category
        (extract_capabilities (\<lambda>declared name. slug name) [transfer_module, gmp_module])) \<and>
     lower ''gmp'' = ''gmp'' \<and>
     listed = filter (\<lambda>e. lower (capability_category e) = ''gmp'')
        (extract_capabilities (\<lambda>declared name. slug name) [transfer_module, gmp_module]) \<and>
     map capability_methodName listed = [''CheckAntiFranking'', ''ApplySection148''] \<and>
     map (js_str ''methodName'') (category_records CODE_CAPABILITIES ''gmp'') =
       map Some (map capability_methodName listed)"
proof -
  let ?es = "extract_capabilities (\<lambda>declared name. slug name) [transfer_module, gmp_module]"
  from sample_aggregate obtain listed
    where a: "(''gmp'', listed) \<in> set (aggregate capability_category ?es)"
      and b: "map capability_methodName listed = [''CheckAntiFranking'', ''ApplySection148'']"
    by (auto simp: map_eq_Cons_conv)
  from aggregate_sorted_and_in_scan_order [of capability_category ?es] a
  have "lower ''gmp'' = ''gmp'' \<and>
      listed = filter (\<lambda>e. lower (capability_category e) = ''gmp'') ?es"
    by blast
  with a b show ?thesis
    by (auto simp: capabilities_by_category capability_methods)
qed

end
